theory Spec2Isabelle
  imports Main "HOL-Library.Code_Target_Nat"
begin

section \<open>Python text\<close>

text \<open>
  A Python \<open>str\<close> is a sequence of Unicode code points: here a list of natural numbers. A
  literal of the source is written \<open>lit ''...''\<close>.
\<close>

type_synonym ustr = "nat list"

definition lit :: "string \<Rightarrow> ustr" where
  "lit s = map of_char s"

text \<open>
  The tables of the Unicode character database that the interpreter consults are data of the
  interpreter, not code of this program, and they change with its version: they are a
  parameter of the model. \<open>is_decimal\<close> is the general category Nd, which is what \<open>\d\<close>
  matches in a pattern over \<open>str\<close>; \<open>is_cased\<close> and \<open>is_case_ignorable\<close> are the two
  properties of those names; \<open>lower_full\<close> and \<open>title_full\<close> are the full lower-case and
  title-case mappings of one code point (one to three code points); \<open>lower_simple\<close> is the
  simple lower-case mapping, which \<open>re\<close> uses to match under \<open>re.I\<close>.
\<close>

record ucd =
  is_decimal :: "nat \<Rightarrow> bool"
  is_cased :: "nat \<Rightarrow> bool"
  is_case_ignorable :: "nat \<Rightarrow> bool"
  lower_full :: "nat \<Rightarrow> nat list"
  title_full :: "nat \<Rightarrow> nat list"
  lower_simple :: "nat \<Rightarrow> nat"

text \<open>\<open>str.isspace\<close> of one code point, which \<open>str.strip\<close> uses: the interpreter's fixed
  list.\<close>

definition isspace :: "nat \<Rightarrow> bool" where
  "isspace c =
     ((0x09 \<le> c \<and> c \<le> 0x0D) \<or> (0x1C \<le> c \<and> c \<le> 0x20) \<or> c = 0x85 \<or> c = 0xA0 \<or>
      c = 0x1680 \<or> (0x2000 \<le> c \<and> c \<le> 0x200A) \<or> c = 0x2028 \<or> c = 0x2029 \<or>
      c = 0x202F \<or> c = 0x205F \<or> c = 0x3000)"

text \<open>The line boundaries of \<open>str.splitlines\<close> (the pair CR LF is one boundary).\<close>

definition is_linebreak :: "nat \<Rightarrow> bool" where
  "is_linebreak c =
     ((0x0A \<le> c \<and> c \<le> 0x0D) \<or> (0x1C \<le> c \<and> c \<le> 0x1E) \<or> c = 0x85 \<or>
      c = 0x2028 \<or> c = 0x2029)"

text \<open>
  \<open>str.lower\<close>: every code point is replaced by its full lower-case mapping, except the
  capital sigma U+03A3, which becomes the final sigma U+03C2 when a cased character comes
  before it and none comes after it (characters that are case-ignorable are skipped on both
  sides), and the small sigma U+03C3 otherwise. \<open>before\<close> holds the code points already
  read, the nearest first.
\<close>

definition sigma_final :: "ucd \<Rightarrow> ustr \<Rightarrow> ustr \<Rightarrow> bool" where
  "sigma_final U before after =
     ((case dropWhile (is_case_ignorable U) before of [] \<Rightarrow> False | c # _ \<Rightarrow> is_cased U c) \<and>
      (case dropWhile (is_case_ignorable U) after of [] \<Rightarrow> True | c # _ \<Rightarrow> \<not> is_cased U c))"

definition lower_ucs4 :: "ucd \<Rightarrow> ustr \<Rightarrow> nat \<Rightarrow> ustr \<Rightarrow> ustr" where
  "lower_ucs4 U before c after =
     (if c = 0x3A3 then [if sigma_final U before after then 0x3C2 else 0x3C3]
      else lower_full U c)"

fun do_lower :: "ucd \<Rightarrow> ustr \<Rightarrow> ustr \<Rightarrow> ustr" where
  "do_lower U before [] = []"
| "do_lower U before (c # cs) = lower_ucs4 U before c cs @ do_lower U (c # before) cs"

definition lower :: "ucd \<Rightarrow> ustr \<Rightarrow> ustr" where
  "lower U s = do_lower U [] s"

text \<open>\<open>str.title\<close>: a code point that follows a cased one is lower-cased as above, any
  other is replaced by its title-case mapping.\<close>

fun do_title :: "ucd \<Rightarrow> bool \<Rightarrow> ustr \<Rightarrow> ustr \<Rightarrow> ustr" where
  "do_title U prev before [] = []"
| "do_title U prev before (c # cs) =
     (if prev then lower_ucs4 U before c cs else title_full U c)
       @ do_title U (is_cased U c) (c # before) cs"

definition title :: "ucd \<Rightarrow> ustr \<Rightarrow> ustr" where
  "title U s = do_title U False [] s"

definition strip :: "ustr \<Rightarrow> ustr" where
  "strip s = rev (dropWhile isspace (rev (dropWhile isspace s)))"

text \<open>\<open>s.startswith(p)\<close>, \<open>p in s\<close> and \<open>s.endswith(p)\<close>.\<close>

fun startswith :: "ustr \<Rightarrow> ustr \<Rightarrow> bool" where
  "startswith [] s = True"
| "startswith (p # ps) [] = False"
| "startswith (p # ps) (c # cs) = (p = c \<and> startswith ps cs)"

fun contains :: "ustr \<Rightarrow> ustr \<Rightarrow> bool" where
  "contains p [] = (p = [])"
| "contains p (c # cs) = (startswith p (c # cs) \<or> contains p cs)"

definition endswith :: "ustr \<Rightarrow> ustr \<Rightarrow> bool" where
  "endswith p s = startswith (rev p) (rev s)"

text \<open>\<open>str.splitlines\<close>: \<open>cur\<close> is the line being read; a text that ends in a line
  boundary has no empty last line.\<close>

fun splitlines_from :: "ustr \<Rightarrow> ustr \<Rightarrow> ustr list" where
  "splitlines_from cur [] = (if cur = [] then [] else [cur])"
| "splitlines_from cur [c] =
     (if is_linebreak c then [cur] else [cur @ [c]])"
| "splitlines_from cur (c # d # cs) =
     (if c = 0x0D \<and> d = 0x0A then cur # splitlines_from [] cs
      else if is_linebreak c then cur # splitlines_from [] (d # cs)
      else splitlines_from (cur @ [c]) (d # cs))"

definition splitlines :: "ustr \<Rightarrow> ustr list" where
  "splitlines s = splitlines_from [] s"

text \<open>\<open>s.replace(old, new)\<close> for a non-empty \<open>old\<close> (the source only replaces \<open>".pdf"\<close>,
  \<open>".0"\<close> and \<open>"dokki"\<close>): every occurrence, left to right, without overlap.\<close>

function replace :: "ustr \<Rightarrow> ustr \<Rightarrow> ustr \<Rightarrow> ustr" where
  "replace old new [] = []"
| "replace old new (c # cs) =
     (if old \<noteq> [] \<and> startswith old (c # cs)
      then new @ replace old new (drop (length old) (c # cs))
      else c # replace old new cs)"
  by pat_completeness auto
termination
  by (relation "measure (\<lambda>(old, new, s). length s)") auto

subsection \<open>The regular expressions of the source\<close>

text \<open>\<open>re.findall(r"\d+", s)\<close>: the maximal runs of decimal digits, left to right.\<close>

function findall_digits :: "ucd \<Rightarrow> ustr \<Rightarrow> ustr list" where
  "findall_digits U [] = []"
| "findall_digits U (c # cs) =
     (if is_decimal U c
      then takeWhile (is_decimal U) (c # cs) # findall_digits U (dropWhile (is_decimal U) cs)
      else findall_digits U cs)"
  by pat_completeness auto
termination
  by (relation "measure (\<lambda>(U, s). length s)") (auto simp: length_dropWhile_le less_Suc_eq_le)

text \<open>The class \<open>[0-9]\<close>.\<close>

definition digit09 :: "nat \<Rightarrow> bool" where
  "digit09 c = (0x30 \<le> c \<and> c \<le> 0x39)"

text \<open>A match of \<open>[0-9]+(?:\/[0-9]+)?\<close> that starts at the head of \<open>s\<close>: the longest run of
  digits, then, when a slash and a digit follow, the slash and the longest run after it.\<close>

definition match_lot :: "ustr \<Rightarrow> ustr option" where
  "match_lot s =
     (let ds = takeWhile digit09 s; r = dropWhile digit09 s in
      if ds = [] then None
      else (case r of
              c # r' \<Rightarrow>
                if c = 0x2F \<and> takeWhile digit09 r' \<noteq> []
                then Some (ds @ [c] @ takeWhile digit09 r')
                else Some ds
            | [] \<Rightarrow> Some ds))"

text \<open>A match of \<open>[0-9]+\.[0-9]+\<close> at the head of \<open>s\<close>. The first run is greedy; a shorter
  first run is followed by a digit, never by the dot, so backtracking finds nothing more.\<close>

definition match_decimal :: "ustr \<Rightarrow> ustr option" where
  "match_decimal s =
     (let ds = takeWhile digit09 s; r = dropWhile digit09 s in
      if ds = [] then None
      else (case r of
              c # r' \<Rightarrow>
                if c = 0x2E \<and> takeWhile digit09 r' \<noteq> []
                then Some (ds @ [c] @ takeWhile digit09 r')
                else None
            | [] \<Rightarrow> None))"

text \<open>A match of \<open>dokki[-\d]+\<close> at the head of \<open>s\<close>.\<close>

definition match_dokki :: "ucd \<Rightarrow> ustr \<Rightarrow> ustr option" where
  "match_dokki U s =
     (let body = takeWhile (\<lambda>c. c = 0x2D \<or> is_decimal U c) (drop 5 s) in
      if startswith (lit ''dokki'') s \<and> body \<noteq> [] then Some (lit ''dokki'' @ body) else None)"

text \<open>\<open>re.search\<close>: the match at the leftmost position that has one.\<close>

fun re_search :: "(ustr \<Rightarrow> ustr option) \<Rightarrow> ustr \<Rightarrow> ustr option" where
  "re_search m [] = m []"
| "re_search m (c # cs) =
     (case m (c # cs) of Some r \<Rightarrow> Some r | None \<Rightarrow> re_search m cs)"

text \<open>
  \<open>re.split(r"(fax|phone|id|\d)", val, flags=re.I)[0]\<close>: the text before the leftmost match
  of the pattern, the whole of \<open>val\<close> when nothing matches. Under \<open>re.I\<close> a letter of the
  pattern matches the code points whose simple lower-case mapping is that letter; for the
  letter \<open>i\<close> the compiler adds the dotless \<open>i\<close> (U+0131), the only equivalent it knows for
  a letter of this pattern.
\<close>

definition ci_char :: "ucd \<Rightarrow> nat \<Rightarrow> nat \<Rightarrow> bool" where
  "ci_char U p c =
     (if p = 0x69 then lower_simple U c = 0x69 \<or> lower_simple U c = 0x131
      else lower_simple U c = p)"

fun ci_prefix :: "ucd \<Rightarrow> ustr \<Rightarrow> ustr \<Rightarrow> bool" where
  "ci_prefix U [] s = True"
| "ci_prefix U (p # ps) [] = False"
| "ci_prefix U (p # ps) (c # cs) = (ci_char U p c \<and> ci_prefix U ps cs)"

definition stop_here :: "ucd \<Rightarrow> ustr \<Rightarrow> bool" where
  "stop_here U s =
     (ci_prefix U (lit ''fax'') s \<or> ci_prefix U (lit ''phone'') s \<or>
      ci_prefix U (lit ''id'') s \<or> (case s of [] \<Rightarrow> False | c # _ \<Rightarrow> is_decimal U c))"

fun split_head :: "ucd \<Rightarrow> ustr \<Rightarrow> ustr" where
  "split_head U [] = []"
| "split_head U (c # cs) = (if stop_here U (c # cs) then [] else c # split_head U cs)"

section \<open>Lexicon\<close>

text \<open>\<open>PRODUCTS\<close> and \<open>PESTICIDES\<close> are the first columns of two CSV files, each entry
  stripped and lower-cased, in the order of the file.\<close>

definition load_names :: "ucd \<Rightarrow> ustr list \<Rightarrow> ustr list" where
  "load_names U column = map (\<lambda>p. lower U (strip p)) column"

section \<open>Header extraction\<close>

datatype error = OSError | IndexError | LotNotFound | OcrError | AnnotationError | DbError

record header =
  CertificateNumber :: ustr
  Sample :: ustr
  LotNumber :: ustr

text \<open>The first loop of \<open>extract_header_fields\<close>; the state is \<open>(cert, lot)\<close> and
  \<open>not cert\<close> is \<open>cert = []\<close>.\<close>

fun header_loop :: "ucd \<Rightarrow> ustr list \<Rightarrow> ustr \<times> ustr \<Rightarrow> ustr \<times> ustr" where
  "header_loop U [] (cert, lot) = (cert, lot)"
| "header_loop U (l # ls) (cert, lot) =
     (let ll = lower U l;
          cert' = (if contains (lit ''certificate number'') ll \<and> cert = []
                   then (case re_search (match_dokki U) ll of
                           Some m \<Rightarrow> replace (lit ''dokki'') (lit ''Dokki'') m
                         | None \<Rightarrow> cert)
                   else cert);
          lot' = (if contains (lit ''lot number'') ll \<and> lot = []
                  then (case re_search match_lot l of Some m \<Rightarrow> m | None \<Rightarrow> lot)
                  else lot)
      in header_loop U ls (cert', lot'))"

text \<open>\<open>for prod in PRODUCTS: if prod in raw_text.lower(): sample = prod.title(); break\<close>;
  \<open>low\<close> is the lower-cased text.\<close>

fun product_loop :: "ucd \<Rightarrow> ustr list \<Rightarrow> ustr \<Rightarrow> ustr" where
  "product_loop U [] low = []"
| "product_loop U (p # ps) low =
     (if contains p low then title U p else product_loop U ps low)"

text \<open>\<open>l.split(":", 1)\<close> and the indexing of its result, which raises \<open>IndexError\<close> out
  of range.\<close>

definition split_colon :: "ustr \<Rightarrow> ustr list" where
  "split_colon l =
     (if 0x3A \<in> set l
      then [takeWhile (\<lambda>c. c \<noteq> 0x3A) l, tl (dropWhile (\<lambda>c. c \<noteq> 0x3A) l)]
      else [l])"

definition item :: "'a list \<Rightarrow> nat \<Rightarrow> error + 'a" where
  "item xs i = (if i < length xs then Inr (xs ! i) else Inl IndexError)"

fun sample_loop :: "ucd \<Rightarrow> ustr list \<Rightarrow> error + ustr" where
  "sample_loop U [] = Inr []"
| "sample_loop U (l # ls) =
     (if startswith (lit ''sample :'') (lower U l)
      then (case item (split_colon l) 1 of
              Inl e \<Rightarrow> Inl e
            | Inr val \<Rightarrow> Inr (strip (split_head U val)))
      else sample_loop U ls)"

definition extract_header_fields :: "ucd \<Rightarrow> ustr list \<Rightarrow> ustr \<Rightarrow> error + header" where
  "extract_header_fields U PRODUCTS raw_text =
     (let lines = splitlines raw_text;
          (cert, lot) = header_loop U lines ([], []);
          sample = product_loop U PRODUCTS (lower U raw_text)
      in if sample = []
         then (case sample_loop U lines of
                 Inl e \<Rightarrow> Inl e
               | Inr sample' \<Rightarrow>
                   Inr \<lparr>CertificateNumber = cert, Sample = sample', LotNumber = lot\<rparr>)
         else Inr \<lparr>CertificateNumber = cert, Sample = sample, LotNumber = lot\<rparr>)"

section \<open>Results extraction\<close>

text \<open>A row is the dictionary \<open>{**header, "Analyte": a, "Result": r, "Unit": u}\<close>.\<close>

record row =
  Header :: header
  Analyte :: ustr
  Result :: ustr
  Unit :: ustr

definition mk_row :: "header \<Rightarrow> ustr \<Rightarrow> ustr \<Rightarrow> ustr \<Rightarrow> row" where
  "mk_row h a r u = \<lparr>Header = h, Analyte = a, Result = r, Unit = u\<rparr>"

text \<open>The inner loop over \<open>PESTICIDES\<close> for one lower-cased line \<open>ll\<close>; the state is
  \<open>(rows, matched)\<close>.\<close>

fun pest_loop ::
  "ucd \<Rightarrow> header \<Rightarrow> ustr \<Rightarrow> ustr list \<Rightarrow> row list \<times> bool \<Rightarrow> row list \<times> bool" where
  "pest_loop U h ll [] (rows, matched) = (rows, matched)"
| "pest_loop U h ll (pest # ps) (rows, matched) =
     (if contains pest ll
      then (if contains (lit ''<loq'') ll
            then pest_loop U h ll ps (rows @ [mk_row h (title U pest) (lit ''LOQ'') []], True)
            else (case re_search match_decimal ll of
                    Some m \<Rightarrow>
                      pest_loop U h ll ps (rows @ [mk_row h (title U pest) m (lit ''mg/kg'')], True)
                  | None \<Rightarrow> pest_loop U h ll ps (rows, True)))
      else pest_loop U h ll ps (rows, matched))"

text \<open>The loop over the lines; the state is \<open>(capture, rows)\<close>. \<open>break\<close> and \<open>return rows\<close>
  both end the loop with the rows collected so far.\<close>

fun results_loop ::
  "ucd \<Rightarrow> ustr list \<Rightarrow> header \<Rightarrow> ustr list \<Rightarrow> bool \<Rightarrow> row list \<Rightarrow> row list" where
  "results_loop U PESTICIDES h [] capture rows = rows"
| "results_loop U PESTICIDES h (l # ls) capture rows =
     (let ll = lower U l in
      if contains (lit ''results of analysis'') ll then results_loop U PESTICIDES h ls True rows
      else if capture then
        (if contains (lit ''measurement uncertainty'') ll then rows
         else if strip ll = [] then results_loop U PESTICIDES h ls capture rows
         else if contains (lit ''not detected'') ll
           then rows @ [mk_row h (lit ''Pesticide Residues'') (lit ''Not detected'') []]
         else (case pest_loop U h ll PESTICIDES (rows, False) of
                 (rows', matched) \<Rightarrow>
                   if matched then results_loop U PESTICIDES h ls capture rows'
                   else results_loop U PESTICIDES h ls capture rows'))
      else results_loop U PESTICIDES h ls capture rows)"

definition extract_results_to_rows :: "ucd \<Rightarrow> ustr list \<Rightarrow> ustr \<Rightarrow> header \<Rightarrow> row list" where
  "extract_results_to_rows U PESTICIDES raw_text h =
     results_loop U PESTICIDES h (splitlines raw_text) False []"

section \<open>Reference table\<close>

text \<open>
  A row of the workbook, as far as the program reads it: column 0 (the lot-bearing cell, as
  \<open>astype(str)\<close> renders it), column 2 (internal lot) and column 3 (supplier), both as \<open>str\<close>
  renders them. The sheets are concatenated in order. Lines 70 to 77, step by step: the new
  column \<open>Lot_external\<close> holds, for each row, the list that \<open>findall\<close> returns for column 0
  after \<open>".0"\<close> has been replaced by nothing; \<open>explode\<close> turns a row with a list into one row
  per element and a row with the empty list into one row with a missing value; the rows
  with a missing value are dropped; the values are rendered as \<open>str\<close> and stripped.
\<close>

record sheet_row =
  col0 :: ustr
  col2 :: ustr
  col3 :: ustr

type_synonym table = "(ustr \<times> sheet_row) list"

definition assign_lots :: "ucd \<Rightarrow> sheet_row list \<Rightarrow> (ustr list \<times> sheet_row) list" where
  "assign_lots U rows =
     map (\<lambda>r. (findall_digits U (replace (lit ''.0'') [] (col0 r)), r)) rows"

fun explode :: "('a list \<times> 'r) list \<Rightarrow> ('a option \<times> 'r) list" where
  "explode [] = []"
| "explode ((vs, r) # rest) =
     (if vs = [] then [(None, r)] else map (\<lambda>v. (Some v, r)) vs) @ explode rest"

definition notna :: "('a option \<times> 'r) list \<Rightarrow> ('a option \<times> 'r) list" where
  "notna rows = filter (\<lambda>(v, r). v \<noteq> None) rows"

definition astype_str_strip :: "(ustr option \<times> 'r) list \<Rightarrow> (ustr \<times> 'r) list" where
  "astype_str_strip rows =
     map (\<lambda>(v, r). (strip (case v of Some d \<Rightarrow> d | None \<Rightarrow> lit ''nan''), r)) rows"

definition load_excel :: "ucd \<Rightarrow> sheet_row list list \<Rightarrow> table" where
  "load_excel U sheets = astype_str_strip (notna (explode (assign_lots U (concat sheets))))"

section \<open>Reconciliation\<close>

text \<open>\<open>Series.unique\<close> keeps the first occurrence of each value, in order.\<close>

fun unique_from :: "'a list \<Rightarrow> 'a list \<Rightarrow> 'a list" where
  "unique_from seen [] = seen"
| "unique_from seen (x # xs) =
     (if x \<in> set seen then unique_from seen xs else unique_from (seen @ [x]) xs)"

definition unique :: "'a list \<Rightarrow> 'a list" where
  "unique xs = unique_from [] xs"

fun join :: "ustr \<Rightarrow> ustr list \<Rightarrow> ustr" where
  "join sep [] = []"
| "join sep [x] = x"
| "join sep (x # y # ys) = x @ sep @ join sep (y # ys)"

text \<open>Lines 326 to 333 of the main loop: the matching table rows, the supplier of the first
  one and the joined internal lots, or the exception \<open>LOT NOT FOUND\<close>.\<close>

definition find_lots :: "ucd \<Rightarrow> table \<Rightarrow> ustr \<Rightarrow> error + (ustr \<times> ustr)" where
  "find_lots U df raw_text =
     (let external_lots = findall_digits U raw_text;
          rows_xl = filter (\<lambda>(e, r). e \<in> set external_lots) df
      in case rows_xl of
           [] \<Rightarrow> Inl LotNotFound
         | (e, r) # _ \<Rightarrow>
             Inr (col3 r, join (lit '' / '') (unique (map (\<lambda>(e, r). col2 r) rows_xl))))"

section \<open>The pipeline driver\<close>

datatype area = INBOX | PROC | DONE | ERR

type_synonym path = "area \<times> ustr"

text \<open>The calls the driver makes, in the order it makes them, are kept in a trace.\<close>

datatype call =
    Move path path
  | Hash path
  | Lookup ustr
  | Ocr path
  | ExtractHeader
  | ExtractResults
  | WriteCsv path
  | FindLots
  | Annotate path
  | Print path
  | Insert ustr ustr
  | Commit

text \<open>The configuration loaded at start-up.\<close>

record config =
  PRODUCTS :: "ustr list"
  PESTICIDES :: "ustr list"
  df :: table

text \<open>What the program does not decide: which external calls raise, the Unicode tables, the
  digest, the OCR text of a file, the rendering of a CSV and of an annotated PDF, and the
  clock.\<close>

record world =
  fails :: "call \<Rightarrow> bool"
  tables :: ucd
  sha256 :: "ustr \<Rightarrow> ustr"
  ocr_of :: "ustr \<Rightarrow> ustr"
  csv_of :: "row list \<Rightarrow> ustr"
  annotated_of :: "ustr \<Rightarrow> ustr \<Rightarrow> ustr \<Rightarrow> ustr"
  now :: ustr

text \<open>
  The four folders (a file name to its bytes); the table \<open>processed\<close> in insertion order
  (\<open>filehash\<close>, \<open>filename\<close>, \<open>processed_at\<close>), in two parts: \<open>ledger\<close> holds the committed
  rows, \<open>pending\<close> the rows inserted in the open transaction of the one connection and not
  yet committed, which the queries of that connection see; and the trace.
\<close>

record state =
  fs :: "path \<Rightarrow> ustr option"
  ledger :: "(ustr \<times> ustr \<times> ustr) list"
  pending :: "(ustr \<times> ustr \<times> ustr) list"
  trace :: "call list"

text \<open>A raised exception is \<open>Inl\<close> of the error and the state it leaves behind.\<close>

definition and_then :: "'e + 'a \<Rightarrow> ('a \<Rightarrow> 'e + 'b) \<Rightarrow> 'e + 'b" where
  "and_then r f = (case r of Inl x \<Rightarrow> Inl x | Inr v \<Rightarrow> f v)"

definition logc :: "call \<Rightarrow> state \<Rightarrow> state" where
  "logc c s = s\<lparr>trace := trace s @ [c]\<rparr>"

definition shutil_move :: "world \<Rightarrow> path \<Rightarrow> path \<Rightarrow> state \<Rightarrow> (error \<times> state) + state" where
  "shutil_move W src dst s =
     (let s' = logc (Move src dst) s in
      case fs s' src of
        None \<Rightarrow> Inl (OSError, s')
      | Some bytes \<Rightarrow>
          if fails W (Move src dst) then Inl (OSError, s')
          else Inr (s'\<lparr>fs := (fs s')(src := None, dst := Some bytes)\<rparr>))"

definition file_hash :: "world \<Rightarrow> path \<Rightarrow> state \<Rightarrow> (error \<times> state) + (ustr \<times> state)" where
  "file_hash W p s =
     (let s' = logc (Hash p) s in
      case fs s' p of
        None \<Rightarrow> Inl (OSError, s')
      | Some bytes \<Rightarrow>
          if fails W (Hash p) then Inl (OSError, s') else Inr (sha256 W bytes, s'))"

text \<open>\<open>SELECT 1 FROM processed WHERE filehash=?\<close> on the connection: it sees the committed
  rows and those of the open transaction.\<close>

definition already_done :: "world \<Rightarrow> ustr \<Rightarrow> state \<Rightarrow> (error \<times> state) + (bool \<times> state)" where
  "already_done W h s =
     (let s' = logc (Lookup h) s in
      if fails W (Lookup h) then Inl (DbError, s')
      else Inr (h \<in> set (map fst (ledger s' @ pending s')), s'))"

text \<open>
  \<open>mark_done\<close>, statement by statement. \<open>cur.execute\<close> of \<open>INSERT OR IGNORE\<close> on the primary
  key \<open>filehash\<close> adds the row to the open transaction unless the key is there already; when
  it raises, nothing was added. \<open>db.commit()\<close> makes the rows of the open transaction
  durable; when it raises, they stay in the open transaction.
\<close>

definition execute_insert :: "world \<Rightarrow> ustr \<Rightarrow> ustr \<Rightarrow> state \<Rightarrow> (error \<times> state) + state" where
  "execute_insert W h name s =
     (let s' = logc (Insert h name) s in
      if fails W (Insert h name) then Inl (DbError, s')
      else if h \<in> set (map fst (ledger s' @ pending s')) then Inr s'
      else Inr (s'\<lparr>pending := pending s' @ [(h, name, now W)]\<rparr>))"

definition commit :: "world \<Rightarrow> state \<Rightarrow> (error \<times> state) + state" where
  "commit W s =
     (let s' = logc Commit s in
      if fails W Commit then Inl (DbError, s')
      else Inr (s'\<lparr>ledger := ledger s' @ pending s', pending := []\<rparr>))"

definition mark_done :: "world \<Rightarrow> ustr \<Rightarrow> ustr \<Rightarrow> state \<Rightarrow> (error \<times> state) + state" where
  "mark_done W h name s = and_then (execute_insert W h name s) (\<lambda>s1. commit W s1)"

definition ocr_text :: "world \<Rightarrow> path \<Rightarrow> state \<Rightarrow> (error \<times> state) + (ustr \<times> state)" where
  "ocr_text W p s =
     (let s' = logc (Ocr p) s in
      case fs s' p of
        None \<Rightarrow> Inl (OSError, s')
      | Some bytes \<Rightarrow>
          if fails W (Ocr p) then Inl (OcrError, s') else Inr (ocr_of W bytes, s'))"

definition to_csv :: "world \<Rightarrow> path \<Rightarrow> row list \<Rightarrow> state \<Rightarrow> (error \<times> state) + state" where
  "to_csv W p rows s =
     (let s' = logc (WriteCsv p) s in
      if fails W (WriteCsv p) then Inl (OSError, s')
      else Inr (s'\<lparr>fs := (fs s')(p := Some (csv_of W rows))\<rparr>))"

definition build_annotated_pdf ::
  "world \<Rightarrow> path \<Rightarrow> ustr \<Rightarrow> ustr \<Rightarrow> state \<Rightarrow> (error \<times> state) + (path \<times> state)" where
  "build_annotated_pdf W pdf_path supplier internal_lots_text s =
     (let s' = logc (Annotate pdf_path) s;
          out_pdf = (DONE, replace (lit ''.pdf'') (lit ''_ANNOTATED.pdf'') (snd pdf_path))
      in case fs s' pdf_path of
           None \<Rightarrow> Inl (OSError, s')
         | Some bytes \<Rightarrow>
             if fails W (Annotate pdf_path) then Inl (AnnotationError, s')
             else Inr (out_pdf,
                       s'\<lparr>fs := (fs s')(out_pdf :=
                              Some (annotated_of W bytes supplier internal_lots_text))\<rparr>))"

text \<open>\<open>print_pdf\<close> catches every exception: it returns a flag the driver ignores.\<close>

definition print_pdf :: "world \<Rightarrow> path \<Rightarrow> state \<Rightarrow> bool \<times> state" where
  "print_pdf W p s = (\<not> fails W (Print p), logc (Print p) s)"

subsection \<open>The body of the \<open>try\<close> block\<close>

text \<open>Lines 315 to 324: OCR, the two extractors, and the results CSV when there are rows.\<close>

definition call_extract_header ::
  "config \<Rightarrow> world \<Rightarrow> ustr \<Rightarrow> state \<Rightarrow> (error \<times> state) + (header \<times> state)" where
  "call_extract_header C W raw_text s =
     (case extract_header_fields (tables W) (PRODUCTS C) raw_text of
        Inl e \<Rightarrow> Inl (e, logc ExtractHeader s)
      | Inr h \<Rightarrow> Inr (h, logc ExtractHeader s))"

definition results_name :: "ustr \<Rightarrow> ustr" where
  "results_name file = replace (lit ''.pdf'') (lit ''_RESULTS.csv'') file"

definition extract_and_write ::
  "config \<Rightarrow> world \<Rightarrow> ustr \<Rightarrow> state \<Rightarrow> (error \<times> state) + (ustr \<times> row list \<times> state)" where
  "extract_and_write C W file s =
     and_then (ocr_text W (PROC, file) s) (\<lambda>(raw_text, s1).
     and_then (call_extract_header C W raw_text s1) (\<lambda>(h, s2).
       let rows = extract_results_to_rows (tables W) (PESTICIDES C) raw_text h;
           s3 = logc ExtractResults s2
       in and_then (if rows \<noteq> [] then to_csv W (DONE, results_name file) rows s3 else Inr s3)
            (\<lambda>s4. Inr (raw_text, rows, s4))))"

text \<open>Lines 326 to 333.\<close>

definition call_find_lots ::
  "config \<Rightarrow> world \<Rightarrow> ustr \<Rightarrow> state \<Rightarrow> (error \<times> state) + ((ustr \<times> ustr) \<times> state)" where
  "call_find_lots C W raw_text s =
     (case find_lots (tables W) (df C) raw_text of
        Inl e \<Rightarrow> Inl (e, logc FindLots s)
      | Inr v \<Rightarrow> Inr (v, logc FindLots s))"

text \<open>Lines 335 to 339: annotate, print, move to the done folder, insert into the ledger.\<close>

definition annotate_and_commit ::
  "world \<Rightarrow> ustr \<Rightarrow> ustr \<Rightarrow> ustr \<Rightarrow> ustr \<Rightarrow> state \<Rightarrow> (error \<times> state) + state" where
  "annotate_and_commit W file h supplier internal_text s =
     and_then (build_annotated_pdf W (PROC, file) supplier internal_text s) (\<lambda>(annotated, s1).
       case print_pdf W annotated s1 of
         (printed, s2) \<Rightarrow>
           and_then (shutil_move W (PROC, file) (DONE, file) s2) (\<lambda>s3.
             mark_done W h file s3))"

definition process_new ::
  "config \<Rightarrow> world \<Rightarrow> ustr \<Rightarrow> ustr \<Rightarrow> state \<Rightarrow> (error \<times> state) + state" where
  "process_new C W file h s =
     and_then (extract_and_write C W file s) (\<lambda>(raw_text, rows, s1).
     and_then (call_find_lots C W raw_text s1) (\<lambda>((supplier, internal_text), s2).
       annotate_and_commit W file h supplier internal_text s2))"

text \<open>Lines 308 to 339. A known hash moves the file to the done folder and \<open>continue\<close>s.\<close>

definition try_body :: "config \<Rightarrow> world \<Rightarrow> ustr \<Rightarrow> state \<Rightarrow> (error \<times> state) + state" where
  "try_body C W file s =
     and_then (shutil_move W (INBOX, file) (PROC, file) s) (\<lambda>s1.
     and_then (file_hash W (PROC, file) s1) (\<lambda>(h, s2).
     and_then (already_done W h s2) (\<lambda>(dup, s3).
       if dup then shutil_move W (PROC, file) (DONE, file) s3
       else process_new C W file h s3)))"

subsection \<open>The exception handler and the loop\<close>

text \<open>\<open>Completed\<close>: the \<open>try\<close> block ran to its end (or to its \<open>continue\<close>). \<open>Failed e\<close>: it
  raised \<open>e\<close> and the handler ran. \<open>Crashed e\<close>: the handler's own move raised \<open>e\<close>, which
  nothing catches.\<close>

datatype outcome = Completed | Failed error | Crashed error

definition process_file :: "config \<Rightarrow> world \<Rightarrow> ustr \<Rightarrow> state \<Rightarrow> outcome \<times> state" where
  "process_file C W file s =
     (case try_body C W file s of
        Inr s' \<Rightarrow> (Completed, s')
      | Inl (e, s') \<Rightarrow>
          if fs s' (PROC, file) \<noteq> None
          then (case shutil_move W (PROC, file) (ERR, file) s' of
                  Inr s'' \<Rightarrow> (Failed e, s'')
                | Inl (e', s'') \<Rightarrow> (Crashed e', s''))
          else (Failed e, s'))"

text \<open>Discovery: \<open>file.lower().endswith(".pdf")\<close>.\<close>

definition discovered :: "ucd \<Rightarrow> ustr \<Rightarrow> bool" where
  "discovered U file = endswith (lit ''.pdf'') (lower U file)"

text \<open>One pass of \<open>for file in os.listdir(INBOX)\<close>; the flag tells whether the pass ended
  without an uncaught exception.\<close>

fun scan :: "config \<Rightarrow> world \<Rightarrow> ustr list \<Rightarrow> state \<Rightarrow> bool \<times> state" where
  "scan C W [] s = (True, s)"
| "scan C W (file # files) s =
     (if \<not> discovered (tables W) file then scan C W files s
      else (case process_file C W file s of
              (Crashed e, s') \<Rightarrow> (False, s')
            | (out, s') \<Rightarrow> scan C W files s'))"

text \<open>The first cycles of \<open>while True\<close>: each cycle has its directory listing and its
  world.\<close>

fun cycles :: "config \<Rightarrow> (world \<times> ustr list) list \<Rightarrow> state \<Rightarrow> bool \<times> state" where
  "cycles C [] s = (True, s)"
| "cycles C ((W, listing) # rest) s =
     (case scan C W listing s of
        (True, s') \<Rightarrow> cycles C rest s'
      | (False, s') \<Rightarrow> (False, s'))"

section \<open>Vocabulary of the properties\<close>

text \<open>The four tests \<open>extract_results_to_rows\<close> makes on a line, by name.\<close>

definition is_roa :: "ucd \<Rightarrow> ustr \<Rightarrow> bool" where
  "is_roa U l = contains (lit ''results of analysis'') (lower U l)"

definition is_mu :: "ucd \<Rightarrow> ustr \<Rightarrow> bool" where
  "is_mu U l = contains (lit ''measurement uncertainty'') (lower U l)"

definition is_nd :: "ucd \<Rightarrow> ustr \<Rightarrow> bool" where
  "is_nd U l = contains (lit ''not detected'') (lower U l)"

definition is_blank :: "ucd \<Rightarrow> ustr \<Rightarrow> bool" where
  "is_blank U l = (strip (lower U l) = [])"

text \<open>A line of the section that reaches the analyte tests.\<close>

definition scanned :: "ucd \<Rightarrow> ustr \<Rightarrow> bool" where
  "scanned U l = (\<not> is_roa U l \<and> \<not> is_blank U l)"

definition not_detected_row :: "header \<Rightarrow> row" where
  "not_detected_row h = mk_row h (lit ''Pesticide Residues'') (lit ''Not detected'') []"

text \<open>The rows the specification gives one analyte name on one line, and one line for the
  whole lexicon: nothing without a match, \<open>LOQ\<close> when the line has \<open><loq\<close>, else the first
  decimal of the line when it has one.\<close>

definition analyte_rows :: "ucd \<Rightarrow> header \<Rightarrow> ustr \<Rightarrow> ustr \<Rightarrow> row list" where
  "analyte_rows U h l pest =
     (if contains pest (lower U l)
      then (if contains (lit ''<loq'') (lower U l) then [mk_row h (title U pest) (lit ''LOQ'') []]
            else (case re_search match_decimal (lower U l) of
                    Some m \<Rightarrow> [mk_row h (title U pest) m (lit ''mg/kg'')]
                  | None \<Rightarrow> []))
      else [])"

definition line_rows :: "ucd \<Rightarrow> ustr list \<Rightarrow> header \<Rightarrow> ustr \<Rightarrow> row list" where
  "line_rows U P h l = concat (map (analyte_rows U h l) P)"

text \<open>The lines the header extractor acts on, and the value each gives: a line with "lot
  number" that has a match of the lot pattern, a line with "certificate number" whose
  lower-cased text has a match of the identifier pattern, a line that starts with
  "sample :", and the text after the first colon of a line.\<close>

definition lot_line :: "ucd \<Rightarrow> ustr \<Rightarrow> bool" where
  "lot_line U l = (contains (lit ''lot number'') (lower U l) \<and> re_search match_lot l \<noteq> None)"

definition cert_line :: "ucd \<Rightarrow> ustr \<Rightarrow> bool" where
  "cert_line U l =
     (contains (lit ''certificate number'') (lower U l) \<and>
      re_search (match_dokki U) (lower U l) \<noteq> None)"

definition lot_of :: "ustr \<Rightarrow> ustr" where
  "lot_of l = (case re_search match_lot l of Some m \<Rightarrow> m | None \<Rightarrow> [])"

definition cert_of :: "ucd \<Rightarrow> ustr \<Rightarrow> ustr" where
  "cert_of U l = (case re_search (match_dokki U) (lower U l) of
                    Some m \<Rightarrow> replace (lit ''dokki'') (lit ''Dokki'') m | None \<Rightarrow> [])"

definition sample_line :: "ucd \<Rightarrow> ustr \<Rightarrow> bool" where
  "sample_line U l = startswith (lit ''sample :'') (lower U l)"

definition after_colon :: "ustr \<Rightarrow> ustr" where
  "after_colon l = tl (dropWhile (\<lambda>c. c \<noteq> 0x3A) l)"

text \<open>The product name the first tier stops at: the first name of the lexicon, trimmed and
  lower-cased, that occurs in the lower-cased text.\<close>

definition first_product :: "ucd \<Rightarrow> ustr list \<Rightarrow> ustr \<Rightarrow> ustr option" where
  "first_product U names raw_text =
     find (\<lambda>p. contains p (lower U raw_text)) (load_names U names)"

text \<open>The records of one row of the workbook whose lot-bearing text is \<open>cell\<close>: one per
  maximal run of decimal digits, each with the whole row (so its internal lot and its
  supplier). \<open>lot_cell\<close> is the text of a cell without the float suffix \<open>.0\<close> that
  \<open>astype(str)\<close> gives a whole number stored as a float.\<close>

definition lot_records :: "ucd \<Rightarrow> ustr \<Rightarrow> sheet_row \<Rightarrow> (ustr \<times> sheet_row) list" where
  "lot_records U cell r = map (\<lambda>d. (d, r)) (findall_digits U cell)"

definition lot_cell :: "ustr \<Rightarrow> ustr" where
  "lot_cell cell =
     (if endswith (lit ''.0'') cell then take (length cell - 2) cell else cell)"

text \<open>The state once the file is in the working folder, hashed and looked up.\<close>

definition acquired :: "world \<Rightarrow> ustr \<Rightarrow> ustr \<Rightarrow> state \<Rightarrow> state" where
  "acquired W file b s =
     s\<lparr>fs := (fs s)((INBOX, file) := None, (PROC, file) := Some b),
       trace := trace s @ [Move (INBOX, file) (PROC, file), Hash (PROC, file),
                           Lookup (sha256 W b)]\<rparr>"

definition is_move :: "call \<Rightarrow> bool" where
  "is_move c = (case c of Move a b \<Rightarrow> True | _ \<Rightarrow> False)"

section \<open>Example data\<close>

text \<open>
  An excerpt of the Unicode character database (version 14, that of CPython 3.11): it is
  exact on U+0000 to U+00FF, on U+0130 and U+0131 (the dotted capital and the dotless small
  \<open>i\<close>), U+0307, U+03A3, U+03C2 and U+03C3 (the sigmas), and on the Arabic-Indic digits
  U+0660 to U+0669 and U+06F0 to U+06F9. The examples use no other code point.
\<close>

definition upper_latin :: "nat \<Rightarrow> bool" where
  "upper_latin c = ((0x41 \<le> c \<and> c \<le> 0x5A) \<or> (0xC0 \<le> c \<and> c \<le> 0xDE \<and> c \<noteq> 0xD7))"

definition lower_latin :: "nat \<Rightarrow> bool" where
  "lower_latin c = ((0x61 \<le> c \<and> c \<le> 0x7A) \<or> (0xDF \<le> c \<and> c \<le> 0xFF \<and> c \<noteq> 0xF7))"

definition ucd_excerpt :: ucd where
  "ucd_excerpt =
     \<lparr>is_decimal = (\<lambda>c. (0x30 \<le> c \<and> c \<le> 0x39) \<or> (0x660 \<le> c \<and> c \<le> 0x669) \<or>
                         (0x6F0 \<le> c \<and> c \<le> 0x6F9)),
      is_cased = (\<lambda>c. upper_latin c \<or> lower_latin c \<or>
                       c \<in> set [0xAA, 0xB5, 0xBA, 0x130, 0x131, 0x3A3, 0x3C2, 0x3C3]),
      is_case_ignorable = (\<lambda>c. c \<in> set [0x27, 0x2E, 0x3A, 0x5E, 0x60, 0xA8, 0xAD, 0xAF, 0xB4,
                                          0xB7, 0xB8, 0x307]),
      lower_full = (\<lambda>c. if upper_latin c then [c + 32]
                         else if c = 0x130 then [0x69, 0x307]
                         else if c = 0x3A3 then [0x3C3] else [c]),
      title_full = (\<lambda>c. if lower_latin c \<and> c \<noteq> 0xDF \<and> c \<noteq> 0xFF then [c - 32]
                         else if c = 0xDF then [0x53, 0x73]
                         else if c = 0xFF then [0x178]
                         else if c = 0xB5 then [0x39C]
                         else if c = 0x131 then [0x49]
                         else if c = 0x3C2 \<or> c = 0x3C3 then [0x3A3] else [c]),
      lower_simple = (\<lambda>c. if upper_latin c then c + 32
                           else if c = 0x130 then 0x69
                           else if c = 0x3A3 then 0x3C3 else c)\<rparr>"

text \<open>A text is written as its lines, joined by line feeds.\<close>

definition text_of :: "ustr list \<Rightarrow> ustr" where
  "text_of ls = join [0x0A] ls"

definition no_header :: header where
  "no_header = \<lparr>CertificateNumber = [], Sample = [], LotNumber = []\<rparr>"

text \<open>A results section. Its second line is a no-break space (U+00A0); its sixth line is
  the word PATE in capitals with the accented letters U+00C2 and U+00C9, followed by
  \<open>3 0.25.7\<close>; the lexicon has that word in small letters (U+00E2, U+00E9).\<close>

definition section_example :: "ustr list" where
  "section_example =
     [lit ''Chlorpyrifos 0.023 mg/kg'', [0xA0], lit ''Malathion <LOQ'',
      lit ''chlorpyrifos and malathion 1.5 and 2.5'', lit ''Malathion traces'',
      [0x50, 0xC2, 0x54, 0xC9] @ lit '' 3 0.25.7'', lit ''ALPHA-CYPERMETHRIN 0.023'']"

definition lexicon_example :: "ustr list" where
  "lexicon_example =
     [lit ''Chlorpyrifos '', lit ''Malathion'', [0x70, 0xE2, 0x74, 0xE9],
      lit ''alpha-cypermethrin'']"

definition row_example :: sheet_row where
  "row_example = \<lparr>col0 = lit ''12345/67890'', col2 = lit ''INT-99'', col3 = lit ''Acme Farms''\<rparr>"

definition header_example :: "ustr list" where
  "header_example =
     [lit ''Laboratory report'', lit ''Certificate Number: DOKKI-2024-001'',
      lit ''Lot Number: 999/7 (12345)'', lit ''Lot Number: 12345'',
      lit ''certificate number dokki-7'']"

definition sample_text_a :: ustr where
  "sample_text_a = text_of [lit ''Sample : Pear 5kg'', lit ''Product: fresh ORANGE JUICE'']"

definition sample_text_b :: ustr where
  "sample_text_b =
     text_of [lit ''Report'', lit ''SAMPLE : Dried Figs Phone 123'', lit ''Sample : Pear'']"

definition sample_text_c :: ustr where
  "sample_text_c = text_of [lit ''Sample : Pear'', lit ''Orange juice'']"

text \<open>A world in which no call fails, the digest and the OCR text of a file are its bytes;
  the end-to-end scenario of the specification.\<close>

definition world_ok :: world where
  "world_ok = \<lparr>fails = (\<lambda>c. False), tables = ucd_excerpt, sha256 = (\<lambda>b. b), ocr_of = (\<lambda>b. b),
               csv_of = (\<lambda>rows. concat (map Analyte rows)),
               annotated_of = (\<lambda>b supplier lots. b @ supplier @ lots),
               now = lit ''2026-11-04''\<rparr>"

definition config_a :: config where
  "config_a =
     \<lparr>PRODUCTS = load_names ucd_excerpt [lit ''Orange''],
      PESTICIDES = load_names ucd_excerpt [lit ''Chlorpyrifos''],
      df = load_excel ucd_excerpt
             [[\<lparr>col0 = lit ''778'', col2 = lit ''INT-99'', col3 = lit ''Acme Farms''\<rparr>]]\<rparr>"

definition cert_text :: ustr where
  "cert_text =
     text_of [lit ''Certificate Number: DOKKI-2024-001'', lit ''Lot Number: 778'',
       lit ''Results of Analysis'', lit ''Chlorpyrifos 0.023 mg/kg'',
       lit ''Measurement Uncertainty 5%'']"

definition other_text :: ustr where
  "other_text = text_of [lit ''Certificate Number: DOKKI-2024-002'', lit ''Lot Number: 778'']"

definition unknown_lot_text :: ustr where
  "unknown_lot_text =
     text_of [lit ''Lot Number: 123'', lit ''Results of Analysis'',
       lit ''Chlorpyrifos 0.023 mg/kg'']"

definition inbox_with :: "ustr \<Rightarrow> ustr \<Rightarrow> state" where
  "inbox_with file b =
     \<lparr>fs = (\<lambda>p. None)((INBOX, file) := Some b), ledger = [], pending = [], trace = []\<rparr>"

definition world_no_commit :: world where
  "world_no_commit = world_ok\<lparr>fails := (\<lambda>c. c = Commit)\<rparr>"

definition state_dup :: state where
  "state_dup = (inbox_with (lit ''cert.pdf'') cert_text)
                 \<lparr>ledger := [(cert_text, lit ''first.pdf'', lit ''2026-11-01'')]\<rparr>"

definition config_b :: config where
  "config_b =
     \<lparr>PRODUCTS = [], PESTICIDES = [],
      df = load_excel ucd_excerpt
             [[\<lparr>col0 = lit ''778/12'', col2 = lit ''INT-99'', col3 = lit ''Acme Farms''\<rparr>],
              [\<lparr>col0 = lit ''12'', col2 = lit ''INT-7'', col3 = lit ''Bravo''\<rparr>]]\<rparr>"

section \<open>Facts about the string operations\<close>

lemma replace_absent: "\<not> contains old s \<Longrightarrow> replace old new s = s"
  by (induction old new s rule: replace.induct) auto

lemma startswith_set: "startswith p s \<Longrightarrow> set p \<subseteq> set s"
  by (induction p s rule: startswith.induct) auto

lemma contains_set: "contains p s \<Longrightarrow> set p \<subseteq> set s"
proof (induction s)
  case Nil
  then show ?case by simp
next
  case (Cons c cs)
  then show ?case using startswith_set[of p "c # cs"] by auto
qed

lemma strip_nonempty:
  assumes "x \<in> set s" and "\<not> isspace x"
  shows "strip s \<noteq> []"
proof -
  have "s = takeWhile isspace s @ dropWhile isspace s" by simp
  moreover have "x \<notin> set (takeWhile isspace s)"
    using assms(2) by (auto dest: set_takeWhileD)
  ultimately have "x \<in> set (dropWhile isspace s)"
    by (metis Un_iff set_append assms(1))
  then have "x \<in> set (rev (dropWhile isspace s))" by simp
  then have "dropWhile isspace (rev (dropWhile isspace s)) \<noteq> []"
    using assms(2) by (auto simp: dropWhile_eq_Nil_conv)
  then show ?thesis by (simp add: strip_def)
qed

section \<open>The results extractor as a function of the lines\<close>

lemma nd_not_blank: "is_nd U l \<Longrightarrow> \<not> is_blank U l"
proof -
  assume "is_nd U l"
  then have "set (lit ''not detected'') \<subseteq> set (lower U l)"
    unfolding is_nd_def by (rule contains_set)
  then have "0x6E \<in> set (lower U l)" by (simp add: lit_def)
  moreover have "\<not> isspace 0x6E" by (simp add: isspace_def)
  ultimately show ?thesis unfolding is_blank_def by (rule strip_nonempty)
qed

lemma pest_loop_rows:
  "fst (pest_loop U h (lower U l) P (rows, m)) = rows @ line_rows U P h l"
  by (induction P arbitrary: rows m)
     (auto simp: line_rows_def analyte_rows_def split: option.splits)

lemma results_loop_before:
  "\<forall>l\<in>set pre. \<not> is_roa U l \<Longrightarrow>
   results_loop U P h (pre @ ls) False rows = results_loop U P h ls False rows"
  by (induction pre) (auto simp: is_roa_def Let_def)

lemma results_loop_heading:
  "is_roa U r \<Longrightarrow> results_loop U P h (r # ls) c rows = results_loop U P h ls True rows"
  by (simp add: is_roa_def Let_def)

lemma results_loop_section:
  "\<forall>l\<in>set sec. is_roa U l \<or> (\<not> is_mu U l \<and> \<not> is_nd U l) \<Longrightarrow>
   results_loop U P h (sec @ ls) True rows =
   results_loop U P h ls True (rows @ concat (map (line_rows U P h) (filter (scanned U) sec)))"
proof (induction sec arbitrary: rows)
  case Nil
  then show ?case by simp
next
  case (Cons l sec)
  have IH: "\<And>rows. results_loop U P h (sec @ ls) True rows =
     results_loop U P h ls True (rows @ concat (map (line_rows U P h) (filter (scanned U) sec)))"
    using Cons by simp
  show ?case
  proof (cases "is_roa U l")
    case True
    then have c: "contains (lit ''results of analysis'') (lower U l)" and ns: "\<not> scanned U l"
      by (simp_all add: is_roa_def scanned_def)
    show ?thesis using c ns IH by (simp add: Let_def)
  next
    case False
    with Cons.prems have nmu: "\<not> is_mu U l" and nnd: "\<not> is_nd U l" by auto
    have c1: "\<not> contains (lit ''results of analysis'') (lower U l)"
      and c2: "\<not> contains (lit ''measurement uncertainty'') (lower U l)"
      and c3: "\<not> contains (lit ''not detected'') (lower U l)"
      using False nmu nnd by (simp_all add: is_roa_def is_mu_def is_nd_def)
    show ?thesis
    proof (cases "is_blank U l")
      case True
      then have b: "strip (lower U l) = []" and ns: "\<not> scanned U l"
        by (simp_all add: is_blank_def scanned_def)
      show ?thesis using c1 c2 b ns IH by (simp add: Let_def)
    next
      case nb: False
      then have b: "strip (lower U l) \<noteq> []" and sc: "scanned U l"
        using False by (simp_all add: is_blank_def scanned_def)
      obtain rows' m where pl: "pest_loop U h (lower U l) P (rows, False) = (rows', m)"
        by (cases "pest_loop U h (lower U l) P (rows, False)")
      have r: "rows' = rows @ line_rows U P h l"
        using pest_loop_rows[of U h l P rows False] pl by simp
      show ?thesis using c1 c2 c3 b sc IH pl r by (simp add: Let_def)
    qed
  qed
qed

lemma results_loop_stop:
  "is_mu U l \<Longrightarrow> \<not> is_roa U l \<Longrightarrow> results_loop U P h (l # ls) True rows = rows"
  by (simp add: is_roa_def is_mu_def Let_def)

lemma results_loop_nd:
  "is_nd U l \<Longrightarrow> \<not> is_roa U l \<Longrightarrow> \<not> is_mu U l \<Longrightarrow>
   results_loop U P h (l # ls) True rows = rows @ [not_detected_row h]"
  using nd_not_blank[of U l]
  by (simp add: is_roa_def is_mu_def is_nd_def is_blank_def not_detected_row_def Let_def)

lemma results_loop_no_heading:
  "\<forall>l\<in>set ls. \<not> is_roa U l \<Longrightarrow> results_loop U P h ls False rows = rows"
  by (induction ls) (auto simp: is_roa_def Let_def)

section \<open>Claims about the results extractor\<close>

text \<open>
  C3 (amended). When the first line that contains "results of analysis" is immediately
  followed by a line that contains "not detected" and contains neither "measurement
  uncertainty" nor "results of analysis", the extractor returns exactly the one row
  Pesticide Residues / Not detected / empty unit, whatever the lexicon and whatever
  follows that line. The lines are those of \<open>str.splitlines\<close> and the tests are made on the
  lower-cased line, for every Unicode database.
\<close>

theorem not_detected_after_heading:
  assumes "splitlines raw_text = pre @ r # n # rest"
    and "\<forall>l\<in>set pre. \<not> is_roa U l" and "is_roa U r"
    and "is_nd U n" and "\<not> is_mu U n" and "\<not> is_roa U n"
  shows "extract_results_to_rows U P raw_text h = [not_detected_row h]"
proof -
  have "extract_results_to_rows U P raw_text h = results_loop U P h (pre @ r # n # rest) False []"
    using assms(1) by (simp add: extract_results_to_rows_def)
  also have "\<dots> = results_loop U P h (r # n # rest) False []"
    using assms(2) by (rule results_loop_before)
  also have "\<dots> = results_loop U P h (n # rest) True []"
    using assms(3) by (rule results_loop_heading)
  also have "\<dots> = [] @ [not_detected_row h]"
    using assms(4,6,5) by (rule results_loop_nd)
  finally show ?thesis by simp
qed

theorem not_detected_after_heading_witness:
  "extract_results_to_rows ucd_excerpt [lit ''chlorpyrifos'']
     (lit ''Certificate'' @ [0x0D, 0x0A] @ lit ''Results of Analysis'' @ [0x85]
        @ lit ''Not Detected'' @ [0x2028] @ lit ''Chlorpyrifos 0.5 mg/kg'')
     no_header = [not_detected_row no_header]
   \<and> splitlines (lit ''Certificate'' @ [0x0D, 0x0A] @ lit ''Results of Analysis'' @ [0x85]
        @ lit ''Not Detected'' @ [0x2028] @ lit ''Chlorpyrifos 0.5 mg/kg'')
       = [lit ''Certificate'', lit ''Results of Analysis'', lit ''Not Detected'',
          lit ''Chlorpyrifos 0.5 mg/kg'']
   \<and> is_roa ucd_excerpt (lit ''Results of Analysis'') \<and> is_nd ucd_excerpt (lit ''Not Detected'')
   \<and> line_rows ucd_excerpt [lit ''chlorpyrifos''] no_header (lit ''Chlorpyrifos 0.5 mg/kg'')
       = [mk_row no_header (lit ''Chlorpyrifos'') (lit ''0.5'') (lit ''mg/kg'')]"
proof -
  let ?t = "lit ''Certificate'' @ [0x0D, 0x0A] @ lit ''Results of Analysis'' @ [0x85]
        @ lit ''Not Detected'' @ [0x2028] @ lit ''Chlorpyrifos 0.5 mg/kg''"
  have h0: "splitlines ?t = [lit ''Certificate'', lit ''Results of Analysis'', lit ''Not Detected'',
          lit ''Chlorpyrifos 0.5 mg/kg'']"
    by code_simp
  have h1: "splitlines ?t = [lit ''Certificate''] @ lit ''Results of Analysis''
              # lit ''Not Detected'' # [lit ''Chlorpyrifos 0.5 mg/kg'']"
    unfolding h0 by simp
  have h2: "\<forall>l\<in>set [lit ''Certificate'']. \<not> is_roa ucd_excerpt l" by code_simp
  have h3: "is_roa ucd_excerpt (lit ''Results of Analysis'')" by code_simp
  have h4: "is_nd ucd_excerpt (lit ''Not Detected'')" by code_simp
  have h5: "\<not> is_mu ucd_excerpt (lit ''Not Detected'')" by code_simp
  have h6: "\<not> is_roa ucd_excerpt (lit ''Not Detected'')" by code_simp
  have h7: "line_rows ucd_excerpt [lit ''chlorpyrifos''] no_header (lit ''Chlorpyrifos 0.5 mg/kg'')
       = [mk_row no_header (lit ''Chlorpyrifos'') (lit ''0.5'') (lit ''mg/kg'')]" by code_simp
  have v: "extract_results_to_rows ucd_excerpt [lit ''chlorpyrifos''] ?t no_header
             = [not_detected_row no_header]"
    using h1 h2 h3 h4 h5 h6 by (rule not_detected_after_heading)
  show ?thesis using v h0 h3 h4 h7 by (intro conjI)
qed

text \<open>
  The claim as written fails when the line after the heading contains both "not detected" and
  "measurement uncertainty": the test for the end of the section comes first, the loop
  breaks, and no row is returned.
\<close>

theorem not_detected_after_heading_counterexample:
  "splitlines (text_of [lit ''Results of Analysis'',
                        lit ''Not detected (measurement uncertainty n/a)''])
     = [lit ''Results of Analysis'', lit ''Not detected (measurement uncertainty n/a)'']
   \<and> is_roa ucd_excerpt (lit ''Results of Analysis'')
   \<and> is_nd ucd_excerpt (lit ''Not detected (measurement uncertainty n/a)'')
   \<and> extract_results_to_rows ucd_excerpt [lit ''chlorpyrifos'']
        (text_of [lit ''Results of Analysis'', lit ''Not detected (measurement uncertainty n/a)''])
        no_header = []"
  by code_simp

text \<open>
  C4 (amended). Let the lines be \<open>pre @ r # sec @ rest\<close>, where \<open>r\<close> is the first line that
  contains "results of analysis", no line of \<open>sec\<close> reaches the end-of-section test or the
  "not detected" test with success, and \<open>rest\<close> is empty or starts with the first line that
  does: a line that does not contain "results of analysis" and contains "measurement
  uncertainty" (the hard stop) or "not detected". No line of \<open>rest\<close> is tested against the
  lexicon. The rows returned are, in line order and with neither sorting nor deduplication,
  those of every line of \<open>sec\<close> that is not blank and does not contain "results of analysis",
  followed by the synthetic row when \<open>rest\<close> starts with a "not detected" line that is not a
  hard stop; a line of \<open>sec\<close> is tested against every lexicon name independently, and each
  name that occurs in it (case-insensitively) gives the title-cased name with LOQ and no
  unit when the line has "<loq", else with the first decimal of the line and mg/kg when
  there is one, else nothing.
\<close>

theorem results_section_rows:
  assumes "splitlines raw_text = pre @ r # sec @ rest"
    and "\<forall>l\<in>set pre. \<not> is_roa U l" and "is_roa U r"
    and "\<forall>l\<in>set sec. is_roa U l \<or> (\<not> is_mu U l \<and> \<not> is_nd U l)"
    and "rest = [] \<or> (\<not> is_roa U (hd rest) \<and> (is_mu U (hd rest) \<or> is_nd U (hd rest)))"
  shows "extract_results_to_rows U (load_names U names) raw_text h =
           concat (map (line_rows U (load_names U names) h) (filter (scanned U) sec))
             @ (if rest \<noteq> [] \<and> \<not> is_mu U (hd rest) then [not_detected_row h] else [])
         \<and> line_rows U (load_names U names) h l =
           concat (map (\<lambda>name. analyte_rows U h l (lower U (strip name))) names)"
proof -
  let ?P = "load_names U names"
  let ?out = "concat (map (line_rows U ?P h) (filter (scanned U) sec))"
  let ?tail = "if rest \<noteq> [] \<and> \<not> is_mu U (hd rest) then [not_detected_row h] else []"
  have "extract_results_to_rows U ?P raw_text h = results_loop U ?P h (pre @ r # sec @ rest) False []"
    using assms(1) by (simp add: extract_results_to_rows_def)
  also have "\<dots> = results_loop U ?P h (r # sec @ rest) False []"
    using assms(2) by (rule results_loop_before)
  also have "\<dots> = results_loop U ?P h (sec @ rest) True []"
    using assms(3) by (rule results_loop_heading)
  also have "\<dots> = results_loop U ?P h rest True ([] @ ?out)"
    using assms(4) by (rule results_loop_section)
  also have "\<dots> = ?out @ ?tail"
  proof (cases rest)
    case Nil
    then show ?thesis by simp
  next
    case (Cons m rest')
    with assms(5) have nr: "\<not> is_roa U m" and alt: "is_mu U m \<or> is_nd U m" by simp_all
    show ?thesis
    proof (cases "is_mu U m")
      case True
      then have "results_loop U ?P h (m # rest') True ([] @ ?out) = [] @ ?out"
        using nr by (rule results_loop_stop)
      then show ?thesis unfolding Cons using True by (simp del: results_loop.simps)
    next
      case False
      then have "is_nd U m" using alt by simp
      then have "results_loop U ?P h (m # rest') True ([] @ ?out) = ([] @ ?out) @ [not_detected_row h]"
        using nr False by (rule results_loop_nd)
      then show ?thesis unfolding Cons using False by (simp del: results_loop.simps)
    qed
  qed
  finally have a: "extract_results_to_rows U ?P raw_text h = ?out @ ?tail" .
  have b: "line_rows U ?P h l = concat (map (\<lambda>name. analyte_rows U h l (lower U (strip name))) names)"
    by (simp add: line_rows_def load_names_def comp_def)
  from a b show ?thesis by (rule conjI)
qed

theorem results_section_rows_witness:
  "extract_results_to_rows ucd_excerpt (load_names ucd_excerpt lexicon_example)
     (text_of ([lit ''Certificate'', lit ''Results of Analysis''] @ section_example @
               [lit ''Measurement Uncertainty 5%'', lit ''Chlorpyrifos 9.9'']))
     no_header =
   [mk_row no_header (lit ''Chlorpyrifos'') (lit ''0.023'') (lit ''mg/kg''),
    mk_row no_header (lit ''Malathion'') (lit ''LOQ'') [],
    mk_row no_header (lit ''Chlorpyrifos'') (lit ''1.5'') (lit ''mg/kg''),
    mk_row no_header (lit ''Malathion'') (lit ''1.5'') (lit ''mg/kg''),
    mk_row no_header [0x50, 0xE2, 0x74, 0xE9] (lit ''0.25'') (lit ''mg/kg''),
    mk_row no_header (lit ''Alpha-Cypermethrin'') (lit ''0.023'') (lit ''mg/kg'')]
   \<and> is_roa ucd_excerpt (lit ''Results of Analysis'')
   \<and> is_mu ucd_excerpt (lit ''Measurement Uncertainty 5%'')
   \<and> is_blank ucd_excerpt [0xA0]"
proof -
  let ?rest = "[lit ''Measurement Uncertainty 5%'', lit ''Chlorpyrifos 9.9'']"
  let ?t = "text_of ([lit ''Certificate'', lit ''Results of Analysis''] @ section_example @ ?rest)"
  have h1: "splitlines ?t = [lit ''Certificate''] @ lit ''Results of Analysis'' # section_example @ ?rest"
    by code_simp
  have h2: "\<forall>l\<in>set [lit ''Certificate'']. \<not> is_roa ucd_excerpt l" by code_simp
  have h3: "is_roa ucd_excerpt (lit ''Results of Analysis'')" by code_simp
  have h4: "\<forall>l\<in>set section_example.
      is_roa ucd_excerpt l \<or> (\<not> is_mu ucd_excerpt l \<and> \<not> is_nd ucd_excerpt l)" by code_simp
  have h5: "?rest = [] \<or> (\<not> is_roa ucd_excerpt (hd ?rest)
      \<and> (is_mu ucd_excerpt (hd ?rest) \<or> is_nd ucd_excerpt (hd ?rest)))" by code_simp
  have h6: "is_mu ucd_excerpt (lit ''Measurement Uncertainty 5%'')" by code_simp
  have h7: "is_blank ucd_excerpt [0xA0]" by code_simp
  have v: "concat (map (line_rows ucd_excerpt (load_names ucd_excerpt lexicon_example) no_header)
                      (filter (scanned ucd_excerpt) section_example))
             @ (if ?rest \<noteq> [] \<and> \<not> is_mu ucd_excerpt (hd ?rest)
                then [not_detected_row no_header] else []) =
   [mk_row no_header (lit ''Chlorpyrifos'') (lit ''0.023'') (lit ''mg/kg''),
    mk_row no_header (lit ''Malathion'') (lit ''LOQ'') [],
    mk_row no_header (lit ''Chlorpyrifos'') (lit ''1.5'') (lit ''mg/kg''),
    mk_row no_header (lit ''Malathion'') (lit ''1.5'') (lit ''mg/kg''),
    mk_row no_header [0x50, 0xE2, 0x74, 0xE9] (lit ''0.25'') (lit ''mg/kg''),
    mk_row no_header (lit ''Alpha-Cypermethrin'') (lit ''0.023'') (lit ''mg/kg'')]" by code_simp
  note t = results_section_rows[OF h1 h2 h3 h4 h5, of lexicon_example no_header, THEN conjunct1]
  show ?thesis using t[unfolded v] h3 h6 h7 by (intro conjI)
qed

text \<open>
  The claim as written fails on a line of the section that contains "not detected": it is not
  blank and it contains an analyte name and a decimal, but the extractor returns the
  synthetic row instead of the analyte's row.
\<close>

theorem results_section_rows_counterexample:
  "scanned ucd_excerpt (lit ''Chlorpyrifos not detected 0.01'')
   \<and> \<not> is_mu ucd_excerpt (lit ''Chlorpyrifos not detected 0.01'')
   \<and> line_rows ucd_excerpt (load_names ucd_excerpt [lit ''Chlorpyrifos'']) no_header
         (lit ''Chlorpyrifos not detected 0.01'')
       = [mk_row no_header (lit ''Chlorpyrifos'') (lit ''0.01'') (lit ''mg/kg'')]
   \<and> extract_results_to_rows ucd_excerpt (load_names ucd_excerpt [lit ''Chlorpyrifos''])
        (text_of [lit ''Results of Analysis'', lit ''Chlorpyrifos not detected 0.01'']) no_header
       = [mk_row no_header (lit ''Pesticide Residues'') (lit ''Not detected'') []]"
  by code_simp

text \<open>
  C10 (amended). If a line of the results section contains "not detected" and neither
  "results of analysis" nor "measurement uncertainty", and no earlier line of the section
  reached the "not detected" test, the extractor returns the rows emitted by the earlier
  lines followed by the synthetic row: more than one row exactly when an earlier line
  emitted a row, the synthetic row alone exactly when none did.
\<close>

theorem not_detected_after_rows:
  assumes "splitlines raw_text = pre @ r # sec @ n # rest"
    and "\<forall>l\<in>set pre. \<not> is_roa U l" and "is_roa U r"
    and "\<forall>l\<in>set sec. is_roa U l \<or> (\<not> is_mu U l \<and> \<not> is_nd U l)"
    and "is_nd U n" and "\<not> is_roa U n" and "\<not> is_mu U n"
  shows "extract_results_to_rows U P raw_text h =
           concat (map (line_rows U P h) (filter (scanned U) sec)) @ [not_detected_row h]
         \<and> (1 < length (extract_results_to_rows U P raw_text h)) =
           (concat (map (line_rows U P h) (filter (scanned U) sec)) \<noteq> [])
         \<and> (extract_results_to_rows U P raw_text h = [not_detected_row h]) =
           (concat (map (line_rows U P h) (filter (scanned U) sec)) = [])"
proof -
  let ?out = "concat (map (line_rows U P h) (filter (scanned U) sec))"
  have "extract_results_to_rows U P raw_text h
          = results_loop U P h (pre @ r # sec @ n # rest) False []"
    using assms(1) by (simp add: extract_results_to_rows_def)
  also have "\<dots> = results_loop U P h (r # sec @ n # rest) False []"
    using assms(2) by (rule results_loop_before)
  also have "\<dots> = results_loop U P h (sec @ n # rest) True []"
    using assms(3) by (rule results_loop_heading)
  also have "\<dots> = results_loop U P h (n # rest) True ([] @ ?out)"
    using assms(4) by (rule results_loop_section)
  also have "\<dots> = ([] @ ?out) @ [not_detected_row h]"
    using assms(5,6,7) by (rule results_loop_nd)
  finally have a: "extract_results_to_rows U P raw_text h = ?out @ [not_detected_row h]" by simp
  show ?thesis unfolding a by (cases ?out) simp_all
qed

theorem not_detected_after_rows_witness:
  "extract_results_to_rows ucd_excerpt [lit ''chlorpyrifos'']
     (text_of [lit ''Results of Analysis'', lit ''Chlorpyrifos 0.5 mg/kg'',
               lit ''Others: not detected'', lit ''Chlorpyrifos 0.7''])
     no_header =
     [mk_row no_header (lit ''Chlorpyrifos'') (lit ''0.5'') (lit ''mg/kg''),
      not_detected_row no_header]
   \<and> is_roa ucd_excerpt (lit ''Results of Analysis'')
   \<and> is_nd ucd_excerpt (lit ''Others: not detected'')"
proof -
  let ?t = "text_of [lit ''Results of Analysis'', lit ''Chlorpyrifos 0.5 mg/kg'',
               lit ''Others: not detected'', lit ''Chlorpyrifos 0.7'']"
  have h1: "splitlines ?t = [] @ lit ''Results of Analysis'' # [lit ''Chlorpyrifos 0.5 mg/kg'']
               @ lit ''Others: not detected'' # [lit ''Chlorpyrifos 0.7'']"
    by code_simp
  have h2: "\<forall>l\<in>set []. \<not> is_roa ucd_excerpt l" by simp
  have h3: "is_roa ucd_excerpt (lit ''Results of Analysis'')" by code_simp
  have h4: "\<forall>l\<in>set [lit ''Chlorpyrifos 0.5 mg/kg''].
      is_roa ucd_excerpt l \<or> (\<not> is_mu ucd_excerpt l \<and> \<not> is_nd ucd_excerpt l)" by code_simp
  have h5: "is_nd ucd_excerpt (lit ''Others: not detected'')" by code_simp
  have h6: "\<not> is_roa ucd_excerpt (lit ''Others: not detected'')" by code_simp
  have h7: "\<not> is_mu ucd_excerpt (lit ''Others: not detected'')" by code_simp
  have v: "concat (map (line_rows ucd_excerpt [lit ''chlorpyrifos''] no_header)
                      (filter (scanned ucd_excerpt) [lit ''Chlorpyrifos 0.5 mg/kg'']))
             @ [not_detected_row no_header]
      = [mk_row no_header (lit ''Chlorpyrifos'') (lit ''0.5'') (lit ''mg/kg''),
         not_detected_row no_header]" by code_simp
  note t = not_detected_after_rows[OF h1 h2 h3 h4 h5 h6 h7, of "[lit ''chlorpyrifos'']" no_header,
      THEN conjunct1]
  show ?thesis using t[unfolded v] h3 h5 by (intro conjI)
qed

text \<open>
  The claim as written fails when the later line also contains "results of analysis": that
  test comes first and the line is consumed as a heading, so no synthetic row is appended.
\<close>

theorem not_detected_after_rows_counterexample:
  "is_nd ucd_excerpt (lit ''Results of analysis: not detected'')
   \<and> extract_results_to_rows ucd_excerpt [lit ''chlorpyrifos'']
     (text_of [lit ''Results of Analysis'', lit ''Chlorpyrifos 0.5 mg/kg'',
               lit ''Results of analysis: not detected''])
     no_header = [mk_row no_header (lit ''Chlorpyrifos'') (lit ''0.5'') (lit ''mg/kg'')]"
  by code_simp

end
